theory Spec2Isabelle
  imports Main "HOL-Library.Word"
begin

unbundle bit_operations_syntax

section \<open>Wire formats of homa_impl.h\<close>

subsection \<open>Packed struct layout\<close>

text \<open>
  Every wire struct of homa_impl.h is declared \<^verbatim>\<open>__attribute__((packed))\<close>: the
  compiler inserts no padding, so a member starts where the members before it end and
  the size of the struct is the sum of the sizes of its members. A struct is modelled
  as the list of its members in declaration order, each with its size in bytes.
\<close>

datatype ktype = U8 | BE16 | BE32 | BE64 | C_CHAR

fun sizeof_ktype :: "ktype \<Rightarrow> nat" where
  "sizeof_ktype U8 = 1"
| "sizeof_ktype BE16 = 2"
| "sizeof_ktype BE32 = 4"
| "sizeof_ktype BE64 = 8"
| "sizeof_ktype C_CHAR = 1"

type_synonym member = "string \<times> nat"
type_synonym struct = "member list"

definition scalar :: "string \<Rightarrow> ktype \<Rightarrow> member" where
  "scalar name t = (name, sizeof_ktype t)"

definition array :: "string \<Rightarrow> ktype \<Rightarrow> nat \<Rightarrow> member" where
  "array name t n = (name, n * sizeof_ktype t)"

definition sizeof :: "struct \<Rightarrow> nat" where
  "sizeof s = sum_list (map snd s)"

definition nested :: "string \<Rightarrow> struct \<Rightarrow> member" where
  "nested name s = (name, sizeof s)"

fun offsetof :: "struct \<Rightarrow> string \<Rightarrow> nat option" where
  "offsetof [] name = None"
| "offsetof ((n, sz) # ms) name =
     (if n = name then Some 0 else map_option (\<lambda>off. sz + off) (offsetof ms name))"

fun member_size :: "struct \<Rightarrow> string \<Rightarrow> nat option" where
  "member_size [] name = None"
| "member_size ((n, sz) # ms) name = (if n = name then Some sz else member_size ms name)"

definition HOMA_MAX_MESSAGE_SIZE :: int where
  "HOMA_MAX_MESSAGE_SIZE = 1000000"

definition HOMA_MAX_HEADER :: nat where
  "HOMA_MAX_HEADER = 64"

definition HOMA_NUM_PRIORITIES :: nat where
  "HOMA_NUM_PRIORITIES = 8"

definition common_header :: struct where
  "common_header =
     [scalar ''sport'' BE16,
      scalar ''dport'' BE16,
      scalar ''unused1'' BE32,
      scalar ''unused2'' BE32,
      scalar ''doff'' U8,
      scalar ''type'' U8,
      scalar ''unused3'' BE16,
      scalar ''checksum'' BE16,
      scalar ''unused4'' BE16,
      scalar ''id'' BE64]"

definition data_segment :: struct where
  "data_segment =
     [scalar ''offset'' BE32,
      scalar ''segment_length'' BE32,
      array ''data'' C_CHAR 0]"

definition data_header :: struct where
  "data_header =
     [nested ''common'' common_header,
      scalar ''message_length'' BE32,
      scalar ''incoming'' BE32,
      scalar ''cutoff_version'' BE16,
      scalar ''retransmit'' U8,
      scalar ''pad'' U8,
      nested ''seg'' data_segment]"

definition grant_header :: struct where
  "grant_header =
     [nested ''common'' common_header,
      scalar ''offset'' BE32,
      scalar ''priority'' U8]"

definition resend_header :: struct where
  "resend_header =
     [nested ''common'' common_header,
      scalar ''offset'' BE32,
      scalar ''length'' BE32,
      scalar ''priority'' U8]"

definition restart_header :: struct where
  "restart_header = [nested ''common'' common_header]"

definition busy_header :: struct where
  "busy_header = [nested ''common'' common_header]"

definition cutoffs_header :: struct where
  "cutoffs_header =
     [nested ''common'' common_header,
      array ''unsched_cutoffs'' BE32 HOMA_NUM_PRIORITIES,
      scalar ''cutoff_version'' BE16]"

definition freeze_header :: struct where
  "freeze_header = [nested ''common'' common_header]"

text \<open>
  The first bytes of a TCP header (RFC 793, \<^verbatim>\<open>struct tcphdr\<close> of the kernel), which
  common_header has to match for TCP segmentation offload: the ports, the sequence and
  acknowledgement numbers, and the byte whose high-order four bits are the data offset.
\<close>

definition tcphdr :: struct where
  "tcphdr =
     [scalar ''source'' BE16,
      scalar ''dest'' BE16,
      scalar ''seq'' BE32,
      scalar ''ack_seq'' BE32,
      scalar ''doff'' U8,
      scalar ''flags'' U8,
      scalar ''window'' BE16,
      scalar ''check'' BE16,
      scalar ''urg_ptr'' BE16]"

text \<open>The condition of each \<^verbatim>\<open>_Static_assert(sizeof(struct h) <= HOMA_MAX_HEADER)\<close>.\<close>

definition header_fits :: "struct \<Rightarrow> bool" where
  "header_fits h = (sizeof h \<le> HOMA_MAX_HEADER)"

subsection \<open>homa_set_doff\<close>

text \<open>
  The members of common_header and data_header as values. \<^verbatim>\<open>sizeof\<close> has type
  \<^verbatim>\<open>size_t\<close>, 64 bits wide in the kernel builds the module targets; the assignment to
  the \<^verbatim>\<open>__u8\<close> member doff keeps the low-order eight bits.
\<close>

record common_hdr =
  sport :: "16 word"
  dport :: "16 word"
  unused1 :: "32 word"
  unused2 :: "32 word"
  doff :: "8 word"
  type' :: "8 word"
  unused3 :: "16 word"
  checksum :: "16 word"
  unused4 :: "16 word"
  id' :: "64 word"

record data_seg =
  offset :: "32 word"
  segment_length :: "32 word"

record data_hdr =
  common :: common_hdr
  message_length :: "32 word"
  incoming :: "32 word"
  cutoff_version :: "16 word"
  retransmit :: "8 word"
  pad :: "8 word"
  seg :: data_seg

definition data_header_prefix :: nat where
  "data_header_prefix = sizeof data_header - sizeof data_segment"

definition homa_set_doff :: "data_hdr \<Rightarrow> data_hdr" where
  "homa_set_doff h =
     h\<lparr>common := (common h)\<lparr>doff := ucast (push_bit 2 (of_nat data_header_prefix :: 64 word))\<rparr>\<rparr>"

text \<open>
  The second \<^verbatim>\<open>_Static_assert\<close> on data_header: the prefix length has its two
  low-order bits clear.
\<close>

definition data_header_prefix_aligned :: bool where
  "data_header_prefix_aligned = ((of_nat data_header_prefix :: 64 word) AND 3 = 0)"

section \<open>The pacer hook\<close>

text \<open>
  The members of struct homa that check_pacer reads; every other member of the struct
  is the extension part of the record, so a statement about \<open>'a homa_scheme\<close> covers the
  whole struct. throttled_rpcs is the list of the throttled RPCs (their handles), head
  first. max_nic_queue_cycles is an \<^verbatim>\<open>int\<close>, link_idle_time an \<^verbatim>\<open>atomic_long_t\<close>.
\<close>

record homa =
  throttled_rpcs :: "nat list"
  max_nic_queue_cycles :: "32 word"
  link_idle_time :: "64 word"

text \<open>The kernel's list_first_or_null_rcu: the first entry of a list, NULL if it is empty.\<close>

definition list_first_or_null_rcu :: "'a list \<Rightarrow> 'a option" where
  "list_first_or_null_rcu xs = (case xs of [] \<Rightarrow> None | x # _ \<Rightarrow> Some x)"

text \<open>
  check_pacer. homa_pacer_xmit is only declared in homa_impl.h, so it is a parameter:
  any function from the state and the softirq argument to the new state. The value of
  get_cycles() is a parameter too; \<^verbatim>\<open>cycles_t\<close> is an unsigned 64-bit integer on the 64-bit
  kernels the module is built for. In
  \<^verbatim>\<open>get_cycles() + homa->max_nic_queue_cycles\<close> the \<^verbatim>\<open>int\<close> is converted to that unsigned
  type (sign extension) and the sum wraps modulo \<open>2 ^ 64\<close>; the \<^verbatim>\<open>long\<close> read from
  link_idle_time is converted to the same type, so the comparison is unsigned.
  The second component of the result lists the calls made, in order.
\<close>

datatype call = Homa_pacer_xmit "32 word"

definition check_pacer ::
  "('a homa_scheme \<Rightarrow> 32 word \<Rightarrow> 'a homa_scheme) \<Rightarrow> 64 word \<Rightarrow> 'a homa_scheme \<Rightarrow> 32 word
     \<Rightarrow> 'a homa_scheme \<times> call list" where
  "check_pacer homa_pacer_xmit get_cycles homa softirq =
     (if list_first_or_null_rcu (throttled_rpcs homa) = None then (homa, [])
      else if get_cycles + scast (max_nic_queue_cycles homa) < link_idle_time homa
        then (homa, [])
      else (homa_pacer_xmit homa softirq, [Homa_pacer_xmit softirq]))"

section \<open>The RPC state machine\<close>

text \<open>
  struct homa_rpc: its state, its role and its error member. homa_impl.h declares the
  functions that assign the state (homa_rpc_new_client, homa_rpc_new_server,
  homa_data_pkt, homa_rpc_ready, homa_ioc_recv, homa_ioc_reply, homa_restart_pkt,
  homa_rpc_abort) but holds none of their bodies.
\<close>

datatype rpc_state =
  RPC_OUTGOING | RPC_INCOMING | RPC_READY | RPC_IN_SERVICE | RPC_CLIENT_DONE

record homa_rpc =
  state :: rpc_state
  is_client :: bool
  error :: int

text \<open>
  Modelled from the spec: the bodies of the functions above are missing. Each rule of
  \<open>rpc_step\<close> is one assignment to the state member, as the specification describes it:
  \<^item> send creates a client RPC (OUTGOING); DATA for an unknown RPC on a server socket
    creates a server RPC in INCOMING state;
  \<^item> "DATA for a known RPC: ... if state was OUTGOING (client case), transition to
    INCOMING";
  \<^item> "INCOMING to READY on either side by reassembly completion";
  \<^item> an application read moves a READY RPC "either to IN_SERVICE (server received
    request) or CLIENT_DONE (client received response)";
  \<^item> "IN_SERVICE to OUTGOING by the application issuing the reply";
  \<^item> "RESTART (client side only): reset the outgoing descriptor to offset 0, discard any
    partial inbound response, re-enter OUTGOING", whatever the state of the client RPC;
  \<^item> "RPCs aborted by timer set the error field and enter READY", and on server crash
    detection "all client RPCs to that peer may be aborted with a suitable error": an
    abort applies to a client RPC in any state and carries the error; server RPCs are
    destroyed instead.
\<close>

datatype rpc_event =
  Data_pkt_first | Rpc_ready | Recv_request | Recv_response | Reply | Restart_pkt
  | Rpc_abort int

definition homa_rpc_new_client :: homa_rpc where
  "homa_rpc_new_client = \<lparr>state = RPC_OUTGOING, is_client = True, error = 0\<rparr>"

definition homa_rpc_new_server :: homa_rpc where
  "homa_rpc_new_server = \<lparr>state = RPC_INCOMING, is_client = False, error = 0\<rparr>"

inductive rpc_step :: "homa_rpc \<Rightarrow> rpc_event \<Rightarrow> homa_rpc \<Rightarrow> bool" where
  data_first:
    "is_client r \<Longrightarrow> state r = RPC_OUTGOING
       \<Longrightarrow> rpc_step r Data_pkt_first (r\<lparr>state := RPC_INCOMING\<rparr>)"
| ready:
    "state r = RPC_INCOMING \<Longrightarrow> rpc_step r Rpc_ready (r\<lparr>state := RPC_READY\<rparr>)"
| recv_request:
    "\<not> is_client r \<Longrightarrow> state r = RPC_READY
       \<Longrightarrow> rpc_step r Recv_request (r\<lparr>state := RPC_IN_SERVICE\<rparr>)"
| recv_response:
    "is_client r \<Longrightarrow> state r = RPC_READY
       \<Longrightarrow> rpc_step r Recv_response (r\<lparr>state := RPC_CLIENT_DONE\<rparr>)"
| reply:
    "\<not> is_client r \<Longrightarrow> state r = RPC_IN_SERVICE
       \<Longrightarrow> rpc_step r Reply (r\<lparr>state := RPC_OUTGOING\<rparr>)"
| restart:
    "is_client r \<Longrightarrow> rpc_step r Restart_pkt (r\<lparr>state := RPC_OUTGOING\<rparr>)"
| abort:
    "is_client r \<Longrightarrow> rpc_step r (Rpc_abort e) (r\<lparr>state := RPC_READY, error := e\<rparr>)"

code_pred rpc_step .

text \<open>The RPCs that exist at some time: created by one of the two constructors, then stepped.\<close>

inductive rpc_reachable :: "homa_rpc \<Rightarrow> bool" where
  new_client: "rpc_reachable homa_rpc_new_client"
| new_server: "rpc_reachable homa_rpc_new_server"
| step: "rpc_reachable r \<Longrightarrow> rpc_step r ev r' \<Longrightarrow> rpc_reachable r'"

text \<open>
  The role-specific order as the comment on the state member gives it: the state that
  follows a state, for a client (\<open>True\<close>) and for a server (\<open>False\<close>).
\<close>

fun next_in_order :: "bool \<Rightarrow> rpc_state \<Rightarrow> rpc_state option" where
  "next_in_order True RPC_OUTGOING = Some RPC_INCOMING"
| "next_in_order True RPC_INCOMING = Some RPC_READY"
| "next_in_order True RPC_READY = Some RPC_CLIENT_DONE"
| "next_in_order True _ = None"
| "next_in_order False RPC_INCOMING = Some RPC_READY"
| "next_in_order False RPC_READY = Some RPC_IN_SERVICE"
| "next_in_order False RPC_IN_SERVICE = Some RPC_OUTGOING"
| "next_in_order False _ = None"

definition advances :: "homa_rpc \<Rightarrow> homa_rpc \<Rightarrow> bool" where
  "advances r r' = (next_in_order (is_client r) (state r) = Some (state r'))"

section \<open>Outgoing messages\<close>

text \<open>
  struct homa_message_out. The list of packet buffers is the list of the numbers of
  message bytes they carry, in offset order (offset 0 first); next_packet is the index
  of the next buffer to transmit, the length of the list standing for NULL (the entire
  message has been sent). According to the comments on the members, unscheduled "may be
  larger than @length" and granted is "never larger than @length".
\<close>

record homa_message_out =
  length' :: int
  packets :: "nat list"
  next_packet :: nat
  unscheduled :: int
  granted :: int
  sched_priority :: "8 word"

text \<open>The offset within the message of the first byte of buffer \<open>i\<close>.\<close>

definition packet_offset :: "homa_message_out \<Rightarrow> nat \<Rightarrow> int" where
  "packet_offset m i = int (sum_list (take i (packets m)))"

text \<open>The bytes handed to IP so far: all buffers before next_packet have been sent.\<close>

definition bytes_sent :: "homa_message_out \<Rightarrow> int" where
  "bytes_sent m = packet_offset m (next_packet m)"

text \<open>
  Modelled from the spec: the bodies of homa_message_out_init, homa_grant_pkt,
  homa_xmit_data and homa_message_out_reset are missing (homa_impl.h only declares
  them).
  \<^item> Construction "splits [the buffer] into fixed-size packet buffers ... links buffers
    in offset order, and computes the initial unscheduled window ...; granted is
    initialised to unscheduled", and granted "never exceeds length": the unscheduled
    window is a parameter here, and granted starts as the smaller of it and the length.
  \<^item> "GRANT: widen granted if its offset exceeds the current value; update
    scheduled-priority from the packet's priority field", again never beyond length.
  \<^item> "Transmission advances next_packet. ... transmission resumes from next_packet
    until either next_packet \<ge> granted or occupancy blocks": the loop stops at the end
    of the list, at a buffer whose offset is not below granted, or at a buffer the NIC
    occupancy check refuses (\<open>nic_ok\<close>, by buffer index, stands for that check).
  \<^item> RESTART "reset[s] the outgoing descriptor to offset 0".
\<close>

function split_message :: "nat \<Rightarrow> nat \<Rightarrow> nat list" where
  "split_message len max_pkt =
     (if len = 0 \<or> max_pkt = 0 then []
      else min len max_pkt # split_message (len - min len max_pkt) max_pkt)"
  by pat_completeness auto
termination
  by (relation "measure fst") auto

definition homa_message_out_init :: "nat \<Rightarrow> nat \<Rightarrow> int \<Rightarrow> homa_message_out" where
  "homa_message_out_init len max_pkt unsched =
     \<lparr>length' = int len, packets = split_message len max_pkt, next_packet = 0,
      unscheduled = unsched, granted = min unsched (int len), sched_priority = 0\<rparr>"

definition homa_grant_pkt :: "int \<Rightarrow> 8 word \<Rightarrow> homa_message_out \<Rightarrow> homa_message_out" where
  "homa_grant_pkt new_offset priority m =
     m\<lparr>granted := (if granted m < new_offset then min new_offset (length' m) else granted m),
       sched_priority := priority\<rparr>"

function homa_xmit_data :: "(nat \<Rightarrow> bool) \<Rightarrow> homa_message_out \<Rightarrow> homa_message_out" where
  "homa_xmit_data nic_ok m =
     (if next_packet m < length (packets m) \<and> bytes_sent m < granted m
         \<and> nic_ok (next_packet m)
      then homa_xmit_data nic_ok (m\<lparr>next_packet := Suc (next_packet m)\<rparr>)
      else m)"
  by pat_completeness auto
termination
  by (relation "measure (\<lambda>(nic_ok, m). length (packets m) - next_packet m)") auto

definition homa_message_out_reset :: "homa_message_out \<Rightarrow> homa_message_out" where
  "homa_message_out_reset m = m\<lparr>next_packet := 0\<rparr>"

declare split_message.simps [simp del] homa_xmit_data.simps [simp del]

text \<open>
  The descriptors that can exist: built by homa_message_out_init for a positive packet
  size and a non-negative unscheduled window, then changed by grants, transmission
  and resets in any order.
\<close>

inductive msgout_reachable :: "homa_message_out \<Rightarrow> bool" where
  init: "0 < max_pkt \<Longrightarrow> 0 \<le> unsched
           \<Longrightarrow> msgout_reachable (homa_message_out_init len max_pkt unsched)"
| grant: "msgout_reachable m \<Longrightarrow> msgout_reachable (homa_grant_pkt new_offset priority m)"
| xmit: "msgout_reachable m \<Longrightarrow> msgout_reachable (homa_xmit_data nic_ok m)"
| reset: "msgout_reachable m \<Longrightarrow> msgout_reachable (homa_message_out_reset m)"

definition msgout_inv :: "homa_message_out \<Rightarrow> bool" where
  "msgout_inv m =
     (int (sum_list (packets m)) = length' m \<and>
      next_packet m \<le> length (packets m) \<and>
      0 \<le> granted m \<and> granted m \<le> length' m \<and>
      min (unscheduled m) (length' m) \<le> granted m \<and>
      (0 < next_packet m \<longrightarrow> packet_offset m (next_packet m - 1) < granted m))"

text \<open>A NIC whose queue never fills: the occupancy check lets every buffer through.\<close>

definition nic_idle :: "nat \<Rightarrow> bool" where
  "nic_idle i = True"

text \<open>
  Two runs. In \<open>granted_mid_packet\<close> a message of 3000 bytes in buffers of 1400 bytes
  with an unscheduled window of 1400 bytes sends what it may, receives a GRANT for
  offset 2000 and sends again. In \<open>short_message\<close> a message of 500 bytes with an
  unscheduled window of 10000 bytes sends what it may.
\<close>

definition granted_mid_packet :: homa_message_out where
  "granted_mid_packet =
     homa_xmit_data nic_idle
       (homa_grant_pkt 2000 0 (homa_xmit_data nic_idle (homa_message_out_init 3000 1400 1400)))"

definition short_message :: homa_message_out where
  "short_message = homa_xmit_data nic_idle (homa_message_out_init 500 1400 10000)"

section \<open>Hash buckets\<close>

definition HOMA_SOCKTAB_BUCKETS :: nat where
  "HOMA_SOCKTAB_BUCKETS = 1024"

definition HOMA_CLIENT_RPC_BUCKETS :: nat where
  "HOMA_CLIENT_RPC_BUCKETS = 1024"

definition HOMA_SERVER_RPC_BUCKETS :: nat where
  "HOMA_SERVER_RPC_BUCKETS = 1024"

text \<open>
  homa_port_hash: the \<^verbatim>\<open>__u16\<close> port is promoted to \<^verbatim>\<open>int\<close> and masked; the result is
  an \<^verbatim>\<open>int\<close>.
\<close>

definition homa_port_hash :: "16 word \<Rightarrow> 32 word" where
  "homa_port_hash port = ucast port AND (of_nat HOMA_SOCKTAB_BUCKETS - 1)"

text \<open>
  homa_client_rpc_bucket and homa_server_rpc_bucket return the address of an entry of the
  socket's bucket array; the model returns the index of that entry. The mask is
  converted to the type of the id, \<^verbatim>\<open>__u64\<close>.
\<close>

definition homa_client_rpc_bucket :: "64 word \<Rightarrow> nat" where
  "homa_client_rpc_bucket rid = unat (rid AND (of_nat HOMA_CLIENT_RPC_BUCKETS - 1))"

definition homa_server_rpc_bucket :: "64 word \<Rightarrow> nat" where
  "homa_server_rpc_bucket rid = unat (rid AND (of_nat HOMA_SERVER_RPC_BUCKETS - 1))"

section \<open>Byte order\<close>

text \<open>
  The byte order of the host is a parameter. \<open>be16\<close>, \<open>be32\<close> and \<open>be64\<close> are the bytes
  of an integer, most significant first; \<open>store\<close> is the memory image of an integer on a
  host (bytes at increasing addresses) and \<open>load\<close> reads an integer from memory. swab16
  and swab32 are the kernel's byte swaps, and htons, ntohs, htonl, ntohl its conversions
  between host and network order: the identity on a big-endian host, a byte swap on a
  little-endian one.
\<close>

datatype endian = Little_endian | Big_endian

definition byte0 :: "'a::len word \<Rightarrow> 8 word" where
  "byte0 w = ucast w"

definition byte1 :: "'a::len word \<Rightarrow> 8 word" where
  "byte1 w = ucast (drop_bit 8 w)"

definition byte2 :: "'a::len word \<Rightarrow> 8 word" where
  "byte2 w = ucast (drop_bit 16 w)"

definition byte3 :: "'a::len word \<Rightarrow> 8 word" where
  "byte3 w = ucast (drop_bit 24 w)"

definition cat16 :: "8 word \<Rightarrow> 8 word \<Rightarrow> 16 word" where
  "cat16 b1 b0 = push_bit 8 (ucast b1) OR ucast b0"

definition cat32 :: "8 word \<Rightarrow> 8 word \<Rightarrow> 8 word \<Rightarrow> 8 word \<Rightarrow> 32 word" where
  "cat32 b3 b2 b1 b0 =
     push_bit 24 (ucast b3) OR push_bit 16 (ucast b2) OR push_bit 8 (ucast b1) OR ucast b0"

definition cat64 :: "32 word \<Rightarrow> 32 word \<Rightarrow> 64 word" where
  "cat64 hi lo = push_bit 32 (ucast hi) OR ucast lo"

definition be16 :: "16 word \<Rightarrow> 8 word list" where
  "be16 w = [byte1 w, byte0 w]"

definition be32 :: "32 word \<Rightarrow> 8 word list" where
  "be32 w = [byte3 w, byte2 w, byte1 w, byte0 w]"

definition be64 :: "64 word \<Rightarrow> 8 word list" where
  "be64 w = be32 (ucast (drop_bit 32 w)) @ be32 (ucast w)"

fun from_be16 :: "8 word list \<Rightarrow> 16 word" where
  "from_be16 [b1, b0] = cat16 b1 b0"
| "from_be16 _ = 0"

fun from_be32 :: "8 word list \<Rightarrow> 32 word" where
  "from_be32 [b3, b2, b1, b0] = cat32 b3 b2 b1 b0"
| "from_be32 _ = 0"

definition from_be64 :: "8 word list \<Rightarrow> 64 word" where
  "from_be64 bs = cat64 (from_be32 (take 4 bs)) (from_be32 (drop 4 bs))"

definition store16 :: "endian \<Rightarrow> 16 word \<Rightarrow> 8 word list" where
  "store16 e w = (case e of Big_endian \<Rightarrow> be16 w | Little_endian \<Rightarrow> rev (be16 w))"

definition store32 :: "endian \<Rightarrow> 32 word \<Rightarrow> 8 word list" where
  "store32 e w = (case e of Big_endian \<Rightarrow> be32 w | Little_endian \<Rightarrow> rev (be32 w))"

definition store64 :: "endian \<Rightarrow> 64 word \<Rightarrow> 8 word list" where
  "store64 e w = (case e of Big_endian \<Rightarrow> be64 w | Little_endian \<Rightarrow> rev (be64 w))"

definition load16 :: "endian \<Rightarrow> 8 word list \<Rightarrow> 16 word" where
  "load16 e bs = (case e of Big_endian \<Rightarrow> from_be16 bs | Little_endian \<Rightarrow> from_be16 (rev bs))"

definition load32 :: "endian \<Rightarrow> 8 word list \<Rightarrow> 32 word" where
  "load32 e bs = (case e of Big_endian \<Rightarrow> from_be32 bs | Little_endian \<Rightarrow> from_be32 (rev bs))"

definition load64 :: "endian \<Rightarrow> 8 word list \<Rightarrow> 64 word" where
  "load64 e bs = (case e of Big_endian \<Rightarrow> from_be64 bs | Little_endian \<Rightarrow> from_be64 (rev bs))"

definition swab16 :: "16 word \<Rightarrow> 16 word" where
  "swab16 x = push_bit 8 (x AND 0x00ff) OR drop_bit 8 (x AND 0xff00)"

definition swab32 :: "32 word \<Rightarrow> 32 word" where
  "swab32 x = push_bit 24 (x AND 0x000000ff) OR push_bit 8 (x AND 0x0000ff00)
     OR drop_bit 8 (x AND 0x00ff0000) OR drop_bit 24 (x AND 0xff000000)"

definition htons :: "endian \<Rightarrow> 16 word \<Rightarrow> 16 word" where
  "htons e x = (case e of Big_endian \<Rightarrow> x | Little_endian \<Rightarrow> swab16 x)"

definition ntohs :: "endian \<Rightarrow> 16 word \<Rightarrow> 16 word" where
  "ntohs e x = (case e of Big_endian \<Rightarrow> x | Little_endian \<Rightarrow> swab16 x)"

definition htonl :: "endian \<Rightarrow> 32 word \<Rightarrow> 32 word" where
  "htonl e x = (case e of Big_endian \<Rightarrow> x | Little_endian \<Rightarrow> swab32 x)"

definition ntohl :: "endian \<Rightarrow> 32 word \<Rightarrow> 32 word" where
  "ntohl e x = (case e of Big_endian \<Rightarrow> x | Little_endian \<Rightarrow> swab32 x)"

text \<open>
  homa_data_offset. The packet's data_header is the struct as the host reads it from
  the packet buffer; the function returns \<^verbatim>\<open>ntohl\<close> of its member seg.offset, as an
  \<^verbatim>\<open>int\<close>.
\<close>

definition homa_data_offset :: "endian \<Rightarrow> data_hdr \<Rightarrow> 32 word" where
  "homa_data_offset e h = ntohl e (offset (seg h))"

text \<open>
  The cast \<^verbatim>\<open>(struct data_header *) skb_transport_header(skb)\<close>: the struct laid over the
  bytes of the packet. Each member is what the host loads from the bytes at the member's
  offset, without any conversion. homa_data_offset requires a valid DATA packet, so a
  buffer shorter than the struct has no data_header.
\<close>

definition member_bytes :: "struct \<Rightarrow> string \<Rightarrow> 8 word list \<Rightarrow> 8 word list" where
  "member_bytes s name bs =
     (case (offsetof s name, member_size s name) of
        (Some off, Some sz) \<Rightarrow> take sz (drop off bs)
      | _ \<Rightarrow> [])"

fun load8 :: "8 word list \<Rightarrow> 8 word" where
  "load8 [b] = b"
| "load8 _ = 0"

definition common_header_at :: "endian \<Rightarrow> 8 word list \<Rightarrow> common_hdr" where
  "common_header_at e bs =
     \<lparr>sport = load16 e (member_bytes common_header ''sport'' bs),
      dport = load16 e (member_bytes common_header ''dport'' bs),
      unused1 = load32 e (member_bytes common_header ''unused1'' bs),
      unused2 = load32 e (member_bytes common_header ''unused2'' bs),
      doff = load8 (member_bytes common_header ''doff'' bs),
      type' = load8 (member_bytes common_header ''type'' bs),
      unused3 = load16 e (member_bytes common_header ''unused3'' bs),
      checksum = load16 e (member_bytes common_header ''checksum'' bs),
      unused4 = load16 e (member_bytes common_header ''unused4'' bs),
      id' = load64 e (member_bytes common_header ''id'' bs)\<rparr>"

definition data_segment_at :: "endian \<Rightarrow> 8 word list \<Rightarrow> data_seg" where
  "data_segment_at e bs =
     \<lparr>offset = load32 e (member_bytes data_segment ''offset'' bs),
      segment_length = load32 e (member_bytes data_segment ''segment_length'' bs)\<rparr>"

definition data_header_at :: "endian \<Rightarrow> 8 word list \<Rightarrow> data_hdr option" where
  "data_header_at e bs =
     (if length bs < sizeof data_header then None
      else Some
        \<lparr>common = common_header_at e (member_bytes data_header ''common'' bs),
         message_length = load32 e (member_bytes data_header ''message_length'' bs),
         incoming = load32 e (member_bytes data_header ''incoming'' bs),
         cutoff_version = load16 e (member_bytes data_header ''cutoff_version'' bs),
         retransmit = load8 (member_bytes data_header ''retransmit'' bs),
         pad = load8 (member_bytes data_header ''pad'' bs),
         seg = data_segment_at e (member_bytes data_header ''seg'' bs)\<rparr>)"

section \<open>Packet codec\<close>

text \<open>
  The remaining header structs (restart_header, busy_header and freeze_header consist
  of the common header alone). Members of different structs that share a name carry
  the name of their struct as a prefix.
\<close>

record grant_hdr =
  grant_common :: common_hdr
  grant_offset :: "32 word"
  grant_priority :: "8 word"

record resend_hdr =
  resend_common :: common_hdr
  resend_offset :: "32 word"
  resend_length :: "32 word"
  resend_priority :: "8 word"

record cutoffs_hdr =
  cutoffs_common :: common_hdr
  unsched_cutoffs :: "32 word list"
  cutoffs_version :: "16 word"

text \<open>
  Modelled from the spec: the functions that fill in and parse packet headers are
  missing (homa_impl.h declares homa_message_out_init, homa_xmit_control,
  homa_pkt_dispatch and the packet handlers; of the header accessors only
  homa_data_offset has a body). "All on-wire integers are big-endian except the RPC id,
  which is transmitted in the client's native byte order (the server only echoes it)":
  a member declared \<^verbatim>\<open>__be16\<close> or \<^verbatim>\<open>__be32\<close> is assigned \<^verbatim>\<open>htons\<close> or \<^verbatim>\<open>htonl\<close> of its value
  and read back with \<^verbatim>\<open>ntohs\<close> or \<^verbatim>\<open>ntohl\<close>; the id is assigned and read as it is; the
  header on the wire is the memory image of the packed struct. A packet shorter than
  its header does not parse.
\<close>

datatype member_val = Val_u8 "8 word" | Val_be16 "16 word" | Val_be32 "32 word" | Val_id "64 word"

fun kind_of :: "member_val \<Rightarrow> ktype" where
  "kind_of (Val_u8 b) = U8"
| "kind_of (Val_be16 w) = BE16"
| "kind_of (Val_be32 w) = BE32"
| "kind_of (Val_id w) = BE64"

fun put_member :: "endian \<Rightarrow> member_val \<Rightarrow> 8 word list" where
  "put_member e (Val_u8 b) = [b]"
| "put_member e (Val_be16 w) = store16 e (htons e w)"
| "put_member e (Val_be32 w) = store32 e (htonl e w)"
| "put_member e (Val_id w) = store64 e w"

fun get_member :: "endian \<Rightarrow> ktype \<Rightarrow> 8 word list \<Rightarrow> member_val option" where
  "get_member e U8 bs = (case bs of [b] \<Rightarrow> Some (Val_u8 b) | _ \<Rightarrow> None)"
| "get_member e BE16 bs =
     (if length bs = 2 then Some (Val_be16 (ntohs e (load16 e bs))) else None)"
| "get_member e BE32 bs =
     (if length bs = 4 then Some (Val_be32 (ntohl e (load32 e bs))) else None)"
| "get_member e BE64 bs = (if length bs = 8 then Some (Val_id (load64 e bs)) else None)"
| "get_member e C_CHAR bs = None"

definition encode :: "endian \<Rightarrow> member_val list \<Rightarrow> 8 word list" where
  "encode e vs = concat (map (put_member e) vs)"

fun decode :: "endian \<Rightarrow> ktype list \<Rightarrow> 8 word list \<Rightarrow> member_val list option" where
  "decode e [] bs = Some []"
| "decode e (k # ks) bs =
     (case get_member e k (take (sizeof_ktype k) bs) of
        None \<Rightarrow> None
      | Some v \<Rightarrow> map_option ((#) v) (decode e ks (drop (sizeof_ktype k) bs)))"

definition common_members :: "common_hdr \<Rightarrow> member_val list" where
  "common_members h =
     [Val_be16 (sport h), Val_be16 (dport h), Val_be32 (unused1 h), Val_be32 (unused2 h),
      Val_u8 (doff h), Val_u8 (type' h), Val_be16 (unused3 h), Val_be16 (checksum h),
      Val_be16 (unused4 h), Val_id (id' h)]"

definition data_members :: "data_hdr \<Rightarrow> member_val list" where
  "data_members h =
     common_members (common h) @
     [Val_be32 (message_length h), Val_be32 (incoming h), Val_be16 (cutoff_version h),
      Val_u8 (retransmit h), Val_u8 (pad h),
      Val_be32 (offset (seg h)), Val_be32 (segment_length (seg h))]"

definition grant_members :: "grant_hdr \<Rightarrow> member_val list" where
  "grant_members h =
     common_members (grant_common h) @ [Val_be32 (grant_offset h), Val_u8 (grant_priority h)]"

definition resend_members :: "resend_hdr \<Rightarrow> member_val list" where
  "resend_members h =
     common_members (resend_common h) @
     [Val_be32 (resend_offset h), Val_be32 (resend_length h), Val_u8 (resend_priority h)]"

definition cutoffs_members :: "cutoffs_hdr \<Rightarrow> member_val list" where
  "cutoffs_members h =
     common_members (cutoffs_common h) @ map Val_be32 (unsched_cutoffs h) @
     [Val_be16 (cutoffs_version h)]"

lemma sizeof_common_header: "sizeof common_header = 28"
  by (simp add: common_header_def sizeof_def scalar_def)

lemma sizeof_data_segment: "sizeof data_segment = 8"
  by (simp add: data_segment_def sizeof_def scalar_def array_def)

lemma sizeof_data_header: "sizeof data_header = 48"
  by (simp add: data_header_def sizeof_def scalar_def nested_def
      sizeof_common_header [unfolded sizeof_def] sizeof_data_segment [unfolded sizeof_def])

lemma sizeof_grant_header: "sizeof grant_header = 33"
  by (simp add: grant_header_def sizeof_def scalar_def nested_def
      sizeof_common_header [unfolded sizeof_def])

lemma sizeof_resend_header: "sizeof resend_header = 37"
  by (simp add: resend_header_def sizeof_def scalar_def nested_def
      sizeof_common_header [unfolded sizeof_def])

lemma sizeof_restart_header: "sizeof restart_header = 28"
  by (simp add: restart_header_def sizeof_def nested_def
      sizeof_common_header [unfolded sizeof_def])

lemma sizeof_busy_header: "sizeof busy_header = 28"
  by (simp add: busy_header_def sizeof_def nested_def
      sizeof_common_header [unfolded sizeof_def])

lemma sizeof_cutoffs_header: "sizeof cutoffs_header = 62"
  by (simp add: cutoffs_header_def sizeof_def scalar_def nested_def array_def
      HOMA_NUM_PRIORITIES_def sizeof_common_header [unfolded sizeof_def])

lemma sizeof_freeze_header: "sizeof freeze_header = 28"
  by (simp add: freeze_header_def sizeof_def nested_def
      sizeof_common_header [unfolded sizeof_def])

lemma data_header_prefix_40: "data_header_prefix = 40"
  by (simp add: data_header_prefix_def sizeof_data_header sizeof_data_segment)

text \<open>
  C5. struct common_header is 28 bytes long; sport occupies bytes 0 and 1, dport bytes
  2 and 3, and doff is the single byte at offset 12. These are the offsets and sizes of
  the source port, the destination port and the data-offset byte of a TCP header.
\<close>

theorem common_header_layout:
  "sizeof common_header = 28 \<and>
   offsetof common_header ''sport'' = Some 0 \<and> member_size common_header ''sport'' = Some 2 \<and>
   offsetof common_header ''dport'' = Some 2 \<and> member_size common_header ''dport'' = Some 2 \<and>
   offsetof common_header ''doff'' = Some 12 \<and> member_size common_header ''doff'' = Some 1 \<and>
   offsetof common_header ''sport'' = offsetof tcphdr ''source'' \<and>
   member_size common_header ''sport'' = member_size tcphdr ''source'' \<and>
   offsetof common_header ''dport'' = offsetof tcphdr ''dest'' \<and>
   member_size common_header ''dport'' = member_size tcphdr ''dest'' \<and>
   offsetof common_header ''doff'' = offsetof tcphdr ''doff'' \<and>
   member_size common_header ''doff'' = member_size tcphdr ''doff''"
  by (simp add: sizeof_common_header) (simp add: common_header_def tcphdr_def scalar_def)

text \<open>
  C6. Each of the seven packet header structs is at most HOMA_MAX_HEADER = 64 bytes
  long, so the condition of every \<^verbatim>\<open>_Static_assert\<close> on a header size is true.
  cutoffs_header is 28 + 8 * 4 + 2 = 62 bytes long and no other header is longer.
\<close>

theorem headers_fit_HOMA_MAX_HEADER:
  "HOMA_MAX_HEADER = 64 \<and>
   header_fits data_header \<and> header_fits grant_header \<and> header_fits resend_header \<and>
   header_fits restart_header \<and> header_fits busy_header \<and> header_fits cutoffs_header \<and>
   header_fits freeze_header \<and>
   sizeof cutoffs_header = 28 + 8 * 4 + 2 \<and> sizeof cutoffs_header = 62 \<and>
   sizeof data_header \<le> sizeof cutoffs_header \<and>
   sizeof grant_header \<le> sizeof cutoffs_header \<and>
   sizeof resend_header \<le> sizeof cutoffs_header \<and>
   sizeof restart_header \<le> sizeof cutoffs_header \<and>
   sizeof busy_header \<le> sizeof cutoffs_header \<and>
   sizeof freeze_header \<le> sizeof cutoffs_header"
  by (simp add: header_fits_def HOMA_MAX_HEADER_def sizeof_data_header sizeof_grant_header
      sizeof_resend_header sizeof_restart_header sizeof_busy_header sizeof_cutoffs_header
      sizeof_freeze_header)

text \<open>
  C9. The fixed prefix of a DATA packet, sizeof(struct data_header) minus
  sizeof(struct data_segment), is 40 bytes, a multiple of 4 (the condition of the
  static assertion holds). homa_set_doff stores 40 << 2 = 160 in doff, whatever the
  header held before: the high-order four bits of that byte are 10 = 40 / 4, the number
  of 4-byte chunks of the prefix, and the low-order four bits are 0.
\<close>

theorem homa_set_doff_value:
  "data_header_prefix = 40 \<and> data_header_prefix mod 4 = 0 \<and> data_header_prefix_aligned \<and>
   doff (common (homa_set_doff h)) = 160 \<and>
   drop_bit 4 (doff (common (homa_set_doff h))) = 10 \<and>
   unat (drop_bit 4 (doff (common (homa_set_doff h)))) = data_header_prefix div 4 \<and>
   doff (common (homa_set_doff h)) AND 15 = 0"
  by (simp add: homa_set_doff_def data_header_prefix_aligned_def data_header_prefix_40)

lemma list_first_or_null_rcu_None: "(list_first_or_null_rcu xs = None) = (xs = [])"
  by (cases xs) (simp_all add: list_first_or_null_rcu_def)

text \<open>
  C2. check_pacer calls homa_pacer_xmit (once, with its own arguments) exactly when
  throttled_rpcs is not empty and get_cycles() + max_nic_queue_cycles is not below
  link_idle_time, the sum and the comparison being those of the C expression
  (unsigned, 64 bits). When either condition fails it makes no call and the state is
  the one it was given.
\<close>

theorem check_pacer_calls_pacer_iff:
  "(snd (check_pacer xmit now h s) = [Homa_pacer_xmit s]) =
     (throttled_rpcs h \<noteq> [] \<and> link_idle_time h \<le> now + scast (max_nic_queue_cycles h)) \<and>
   (snd (check_pacer xmit now h s) = []) =
     (\<not> (throttled_rpcs h \<noteq> [] \<and> link_idle_time h \<le> now + scast (max_nic_queue_cycles h))) \<and>
   fst (check_pacer xmit now h s) =
     (if throttled_rpcs h \<noteq> [] \<and> link_idle_time h \<le> now + scast (max_nic_queue_cycles h)
      then xmit h s else h)"
  by (auto simp add: check_pacer_def list_first_or_null_rcu_None not_le)

section \<open>RPC states\<close>

lemma next_in_order_INCOMING: "next_in_order b RPC_INCOMING = Some RPC_READY"
  by (cases b) simp_all

lemma rpc_step_edges:
  "rpc_step r ev r' \<Longrightarrow>
     is_client r' = is_client r \<and>
     (advances r r' \<or>
      (is_client r \<and> ev = Restart_pkt \<and> state r' = RPC_OUTGOING) \<or>
      (is_client r \<and> ev = Rpc_abort (error r') \<and> state r' = RPC_READY))"
  by (induction rule: rpc_step.induct) (auto simp: advances_def next_in_order_INCOMING)

lemma rpc_reachable_roles:
  "rpc_reachable r \<Longrightarrow>
     (if is_client r then state r \<noteq> RPC_IN_SERVICE else state r \<noteq> RPC_CLIENT_DONE)"
proof (induction rule: rpc_reachable.induct)
  case new_client
  then show ?case by (simp add: homa_rpc_new_client_def)
next
  case new_server
  then show ?case by (simp add: homa_rpc_new_server_def)
next
  case (step r ev r')
  from step.hyps(2) step.IH show ?case
    by (induction rule: rpc_step.induct) (auto split: if_splits)
qed

lemma client_INCOMING_reachable:
  "rpc_reachable \<lparr>state = RPC_INCOMING, is_client = True, error = 0\<rparr>"
proof -
  have "rpc_step homa_rpc_new_client Data_pkt_first
          (homa_rpc_new_client\<lparr>state := RPC_INCOMING\<rparr>)"
    by (rule rpc_step.data_first) (simp_all add: homa_rpc_new_client_def)
  then show ?thesis
    using rpc_reachable.step [OF rpc_reachable.new_client]
    by (simp add: homa_rpc_new_client_def)
qed

lemma client_INCOMING_restart:
  "rpc_step \<lparr>state = RPC_INCOMING, is_client = True, error = 0\<rparr> Restart_pkt
     \<lparr>state = RPC_OUTGOING, is_client = True, error = 0\<rparr>"
proof -
  have "rpc_step \<lparr>state = RPC_INCOMING, is_client = True, error = 0\<rparr> Restart_pkt
          (\<lparr>state = RPC_INCOMING, is_client = True, error = 0\<rparr>\<lparr>state := RPC_OUTGOING\<rparr>)"
    by (rule rpc_step.restart) simp_all
  then show ?thesis by simp
qed

text \<open>
  C3, as stated, fails: a client RPC that is receiving its response (INCOMING) goes back
  to OUTGOING when a RESTART packet arrives, and a client RPC that is still OUTGOING
  goes straight to READY when it is aborted. Neither assignment follows the order
  OUTGOING, INCOMING, READY, CLIENT_DONE.
\<close>

theorem rpc_state_leaves_order:
  "rpc_reachable \<lparr>state = RPC_INCOMING, is_client = True, error = 0\<rparr> \<and>
   rpc_step \<lparr>state = RPC_INCOMING, is_client = True, error = 0\<rparr> Restart_pkt
     \<lparr>state = RPC_OUTGOING, is_client = True, error = 0\<rparr> \<and>
   \<not> advances \<lparr>state = RPC_INCOMING, is_client = True, error = 0\<rparr>
     \<lparr>state = RPC_OUTGOING, is_client = True, error = 0\<rparr> \<and>
   rpc_reachable homa_rpc_new_client \<and>
   rpc_step homa_rpc_new_client (Rpc_abort (- 110))
     (homa_rpc_new_client\<lparr>state := RPC_READY, error := - 110\<rparr>) \<and>
   \<not> advances homa_rpc_new_client (homa_rpc_new_client\<lparr>state := RPC_READY, error := - 110\<rparr>)"
proof -
  have "rpc_step homa_rpc_new_client (Rpc_abort (- 110))
          (homa_rpc_new_client\<lparr>state := RPC_READY, error := - 110\<rparr>)"
    by (rule rpc_step.abort) (simp_all add: homa_rpc_new_client_def)
  then show ?thesis
    using client_INCOMING_reachable client_INCOMING_restart rpc_reachable.new_client
    by (simp add: advances_def homa_rpc_new_client_def)
qed

text \<open>
  C3, amended. Every assignment to the state of an RPC keeps its role and either
  advances along the role-specific order (client: OUTGOING, INCOMING, READY,
  CLIENT_DONE; server: INCOMING, READY, IN_SERVICE, OUTGOING), or is one of two
  client-only exceptions, each possible in any state of the client RPC: the event is a
  RESTART packet and the RPC re-enters OUTGOING, or the event is an abort (timeout or
  server crash detection) and the RPC enters READY with the abort's error in its error
  member. A client RPC is never IN_SERVICE and a server RPC is never CLIENT_DONE.
\<close>

theorem rpc_state_transitions:
  "(rpc_step r ev r' \<longrightarrow>
      is_client r' = is_client r \<and>
      (advances r r' \<or>
       (is_client r \<and> ev = Restart_pkt \<and> state r' = RPC_OUTGOING) \<or>
       (is_client r \<and> ev = Rpc_abort (error r') \<and> state r' = RPC_READY))) \<and>
   (rpc_reachable q \<longrightarrow>
      (if is_client q then state q \<noteq> RPC_IN_SERVICE else state q \<noteq> RPC_CLIENT_DONE))"
  using rpc_step_edges [of r ev r'] rpc_reachable_roles [of q] by blast

theorem rpc_state_transitions_witness:
  "rpc_step \<lparr>state = RPC_INCOMING, is_client = True, error = 0\<rparr> Restart_pkt
     \<lparr>state = RPC_OUTGOING, is_client = True, error = 0\<rparr> \<and>
   rpc_reachable \<lparr>state = RPC_INCOMING, is_client = True, error = 0\<rparr> \<and>
   is_client \<lparr>state = RPC_OUTGOING, is_client = True, error = 0\<rparr> \<and>
   state \<lparr>state = RPC_OUTGOING, is_client = True, error = 0\<rparr> = RPC_OUTGOING \<and>
   state \<lparr>state = RPC_INCOMING, is_client = True, error = 0\<rparr> \<noteq> RPC_IN_SERVICE"
  using rpc_state_transitions
    [of "\<lparr>state = RPC_INCOMING, is_client = True, error = 0\<rparr>" Restart_pkt
        "\<lparr>state = RPC_OUTGOING, is_client = True, error = 0\<rparr>"
        "\<lparr>state = RPC_INCOMING, is_client = True, error = 0\<rparr>"]
    client_INCOMING_reachable client_INCOMING_restart
  by simp

section \<open>Outgoing message descriptors\<close>

lemma sum_list_split_message: "0 < max_pkt \<Longrightarrow> sum_list (split_message len max_pkt) = len"
proof (induction len max_pkt rule: split_message.induct)
  case (1 len max_pkt)
  show ?case
  proof (cases "len = 0")
    case True
    then show ?thesis by (simp add: split_message.simps)
  next
    case False
    with 1 have "sum_list (split_message (len - min len max_pkt) max_pkt) = len - min len max_pkt"
      by simp
    with False 1(2) show ?thesis
      by (subst split_message.simps) simp
  qed
qed

lemma msgout_inv_init:
  assumes "0 < max_pkt" "0 \<le> unsched"
  shows "msgout_inv (homa_message_out_init len max_pkt unsched)"
  using assms by (simp add: msgout_inv_def homa_message_out_init_def sum_list_split_message)

lemma msgout_inv_grant: "msgout_inv m \<Longrightarrow> msgout_inv (homa_grant_pkt new_offset priority m)"
  by (auto simp: msgout_inv_def homa_grant_pkt_def packet_offset_def)

lemma msgout_inv_reset: "msgout_inv m \<Longrightarrow> msgout_inv (homa_message_out_reset m)"
  by (simp add: msgout_inv_def homa_message_out_reset_def)

lemma msgout_inv_xmit: "msgout_inv m \<Longrightarrow> msgout_inv (homa_xmit_data nic_ok m)"
proof (induction nic_ok m rule: homa_xmit_data.induct)
  case (1 nic_ok m)
  show ?case
  proof (cases "next_packet m < length (packets m) \<and> bytes_sent m < granted m
      \<and> nic_ok (next_packet m)")
    case True
    then have "msgout_inv (m\<lparr>next_packet := Suc (next_packet m)\<rparr>)"
      using "1.prems" by (simp add: msgout_inv_def bytes_sent_def packet_offset_def)
    with True 1 show ?thesis
      by (subst homa_xmit_data.simps) simp
  next
    case False
    then show ?thesis using "1.prems" by (subst homa_xmit_data.simps) auto
  qed
qed

lemma msgout_reachable_inv: "msgout_reachable m \<Longrightarrow> msgout_inv m"
  by (induction rule: msgout_reachable.induct)
    (simp_all add: msgout_inv_init msgout_inv_grant msgout_inv_xmit msgout_inv_reset)

lemma sum_list_take_le: "sum_list (take i xs) \<le> sum_list (xs :: nat list)"
proof -
  have "sum_list xs = sum_list (take i xs) + sum_list (drop i xs)"
    by (metis append_take_drop_id sum_list_append)
  then show ?thesis by simp
qed

lemma msgout_inv_bytes_sent: "msgout_inv m \<Longrightarrow> 0 \<le> bytes_sent m \<and> bytes_sent m \<le> length' m"
  using sum_list_take_le [of "next_packet m" "packets m"]
  by (simp add: msgout_inv_def bytes_sent_def packet_offset_def)

lemma granted_mid_packet_eq:
  "granted_mid_packet =
     \<lparr>length' = 3000, packets = [1400, 1400, 200], next_packet = 2, unscheduled = 1400,
      granted = 2000, sched_priority = 0\<rparr>"
  by (simp add: granted_mid_packet_def split_message.simps homa_xmit_data.simps
      homa_grant_pkt_def homa_message_out_init_def bytes_sent_def packet_offset_def nic_idle_def)

lemma short_message_eq:
  "short_message =
     \<lparr>length' = 500, packets = [500], next_packet = 1, unscheduled = 10000,
      granted = 500, sched_priority = 0\<rparr>"
  by (simp add: short_message_def split_message.simps homa_xmit_data.simps
      homa_message_out_init_def bytes_sent_def packet_offset_def nic_idle_def)

lemma granted_mid_packet_reachable: "msgout_reachable granted_mid_packet"
  unfolding granted_mid_packet_def
  by (intro msgout_reachable.xmit msgout_reachable.grant msgout_reachable.init) simp_all

lemma short_message_reachable: "msgout_reachable short_message"
  unfolding short_message_def
  by (intro msgout_reachable.xmit msgout_reachable.init) simp_all

text \<open>
  C1, as stated, fails twice. A buffer that starts below granted is sent whole, so after
  a GRANT for an offset inside a buffer bytes_sent (2800) exceeds granted (2000). And
  the unscheduled window of a short message stays larger than its length, hence larger
  than granted, after the whole message has been sent (10000 against 500).
\<close>

theorem msgout_order_fails:
  "msgout_reachable granted_mid_packet \<and>
   bytes_sent granted_mid_packet = 2800 \<and> granted granted_mid_packet = 2000 \<and>
   \<not> bytes_sent granted_mid_packet \<le> granted granted_mid_packet \<and>
   msgout_reachable short_message \<and>
   0 < next_packet short_message \<and> bytes_sent short_message = length' short_message \<and>
   unscheduled short_message = 10000 \<and> granted short_message = 500 \<and>
   \<not> unscheduled short_message \<le> granted short_message"
  using granted_mid_packet_reachable short_message_reachable
  by (simp add: granted_mid_packet_eq short_message_eq bytes_sent_def packet_offset_def)

text \<open>
  C1, amended. For every outgoing message descriptor, at all times:
  0 \<le> bytes_sent \<le> length and 0 \<le> granted \<le> length; the last buffer sent, if any, starts
  below granted (so bytes_sent exceeds granted by less than one buffer, if at all); and
  granted is at least the smaller of unscheduled and length, so unscheduled \<le> granted
  whenever unscheduled \<le> length.
\<close>

theorem msgout_bounds:
  "msgout_reachable m \<Longrightarrow>
     0 \<le> bytes_sent m \<and> bytes_sent m \<le> length' m \<and>
     0 \<le> granted m \<and> granted m \<le> length' m \<and>
     min (unscheduled m) (length' m) \<le> granted m \<and>
     (0 < next_packet m \<longrightarrow> packet_offset m (next_packet m - 1) < granted m)"
  using msgout_reachable_inv [of m] msgout_inv_bytes_sent [of m]
  by (simp add: msgout_inv_def)

theorem msgout_bounds_witness:
  "msgout_reachable granted_mid_packet \<and> 0 < next_packet granted_mid_packet \<and>
   0 \<le> bytes_sent granted_mid_packet \<and>
   bytes_sent granted_mid_packet \<le> length' granted_mid_packet \<and>
   0 \<le> granted granted_mid_packet \<and> granted granted_mid_packet \<le> length' granted_mid_packet \<and>
   min (unscheduled granted_mid_packet) (length' granted_mid_packet)
     \<le> granted granted_mid_packet \<and>
   packet_offset granted_mid_packet (next_packet granted_mid_packet - 1)
     < granted granted_mid_packet"
proof -
  have r: "msgout_reachable granted_mid_packet"
    by (rule granted_mid_packet_reachable)
  have n: "0 < next_packet granted_mid_packet"
    by (simp add: granted_mid_packet_eq)
  show ?thesis
    using r n msgout_bounds [OF r] by simp
qed

section \<open>Hash buckets are inside their tables\<close>

lemma word_1023_mask: "(1023 :: 'a::len word) = mask 10"
  by (simp add: mask_eq_exp_minus_1)

lemma sint_small:
  assumes "uint (w :: 32 word) < 1024"
  shows "sint w = uint w"
proof -
  have lo: "- (2 ^ 31) \<le> uint w"
  proof -
    have "- ((2::int) ^ 31) \<le> 0" by simp
    also have "0 \<le> uint w" by simp
    finally show ?thesis .
  qed
  have "(1024::int) \<le> 2 ^ 31" by simp
  with assms have hi: "uint w < 2 ^ 31" by (rule order.strict_trans2)
  have "sint w = signed_take_bit 31 (uint w)"
    by (simp add: sint_uint)
  also have "\<dots> = uint w"
    using lo hi by (rule signed_take_bit_int_eq_self)
  finally show ?thesis .
qed

lemma uint_homa_port_hash: "uint (homa_port_hash port) = uint port mod 1024"
proof -
  have "homa_port_hash port = take_bit 10 (ucast port)"
    by (simp add: homa_port_hash_def HOMA_SOCKTAB_BUCKETS_def word_1023_mask take_bit_eq_mask)
  then have "uint (homa_port_hash port) = take_bit 10 (uint (ucast port :: 32 word))"
    by (simp add: unsigned_take_bit_eq)
  also have "uint (ucast port :: 32 word) = uint port"
    by (simp add: uint_up_ucast is_up)
  finally show ?thesis by (simp add: take_bit_eq_mod)
qed

lemma and_1023_take_bit: "rid AND (of_nat 1024 - 1) = take_bit 10 (rid :: 64 word)"
  by (simp add: word_1023_mask take_bit_eq_mask)

lemma unat_take_bit_10: "unat (take_bit 10 (rid :: 64 word)) = unat rid mod 1024"
proof -
  have "unat (take_bit 10 rid) = take_bit 10 (unat rid)"
    by (rule unsigned_take_bit_eq)
  also have "\<dots> = unat rid mod 1024"
    by (simp only: take_bit_eq_mod) simp
  finally show ?thesis .
qed

text \<open>
  X1. homa_port_hash returns the port number modulo HOMA_SOCKTAB_BUCKETS, a valid index of
  the bucket array of a homa_socktab (never negative, below 1024).
\<close>

theorem homa_port_hash_in_table:
  "sint (homa_port_hash port) = uint port mod 1024 \<and>
   0 \<le> sint (homa_port_hash port) \<and> sint (homa_port_hash port) < int HOMA_SOCKTAB_BUCKETS"
proof -
  have u: "uint (homa_port_hash port) = uint port mod 1024"
    by (rule uint_homa_port_hash)
  then have hi: "uint (homa_port_hash port) < 1024" by simp
  then have "sint (homa_port_hash port) = uint (homa_port_hash port)"
    by (rule sint_small)
  with u hi show ?thesis by (simp add: HOMA_SOCKTAB_BUCKETS_def)
qed

text \<open>
  X2. homa_client_rpc_bucket and homa_server_rpc_bucket select the bucket whose index is the
  RPC id modulo 1024, a valid index of the socket's bucket arrays.
\<close>

theorem homa_rpc_bucket_in_table:
  "homa_client_rpc_bucket rid = unat rid mod 1024 \<and>
   homa_client_rpc_bucket rid < HOMA_CLIENT_RPC_BUCKETS \<and>
   homa_server_rpc_bucket rid = unat rid mod 1024 \<and>
   homa_server_rpc_bucket rid < HOMA_SERVER_RPC_BUCKETS"
  by (simp only: homa_client_rpc_bucket_def homa_server_rpc_bucket_def
      HOMA_CLIENT_RPC_BUCKETS_def HOMA_SERVER_RPC_BUCKETS_def and_1023_take_bit
      unat_take_bit_10) simp

section \<open>The pacer hook without wrap-around\<close>

lemma uint_scast_nonneg:
  assumes "0 \<le> sint (m :: 32 word)"
  shows "uint (scast m :: 64 word) = sint m"
proof -
  have "sint m < 2 ^ 31" using sint_lt [of m] by simp
  also have "(2::int) ^ 31 \<le> 2 ^ 64" by (rule power_increasing) simp_all
  finally have hi: "sint m < 2 ^ 64" .
  have "uint (scast m :: 64 word) = take_bit 64 (sint m)"
    by (simp only: scast_eq uint_word_of_int_eq) simp
  also have "\<dots> = sint m"
    using assms hi by (rule take_bit_int_eq_self)
  finally show ?thesis .
qed

lemma pacer_sum_no_wrap:
  assumes "0 \<le> sint (m :: 32 word)" "uint (now :: 64 word) + sint m < 2 ^ 64"
  shows "(idle \<le> now + scast m) = (uint idle \<le> uint now + sint m)"
proof -
  have s: "uint (scast m :: 64 word) = sint m"
    using assms(1) by (rule uint_scast_nonneg)
  have "uint now + uint (scast m :: 64 word) < 2 ^ LENGTH(64)"
    using assms(2) by (simp only: s) simp
  then have "uint (now + scast m) = uint now + uint (scast m :: 64 word)"
    by (simp only: uint_add_lem)
  then show ?thesis by (simp only: word_le_def s)
qed

text \<open>
  X3. When max_nic_queue_cycles is not negative and the sum does not exceed the range of
  \<^verbatim>\<open>cycles_t\<close>, the condition of check_pacer is the comparison of the integers:
  homa_pacer_xmit is called exactly when throttled_rpcs is not empty and
  link_idle_time \<le> get_cycles() + max_nic_queue_cycles.
\<close>

theorem check_pacer_no_wrap:
  assumes "0 \<le> sint (max_nic_queue_cycles h)"
    and "uint now + sint (max_nic_queue_cycles h) < 2 ^ 64"
  shows "(snd (check_pacer xmit now h s) = [Homa_pacer_xmit s]) =
     (throttled_rpcs h \<noteq> [] \<and>
      uint (link_idle_time h) \<le> uint now + sint (max_nic_queue_cycles h))"
  using pacer_sum_no_wrap [OF assms, of "link_idle_time h"]
  by (auto simp add: check_pacer_def list_first_or_null_rcu_None not_le)

theorem check_pacer_no_wrap_witness:
  "0 \<le> sint (max_nic_queue_cycles
      \<lparr>throttled_rpcs = [7], max_nic_queue_cycles = 1000, link_idle_time = 5000\<rparr>) \<and>
   uint (4500 :: 64 word) + sint (max_nic_queue_cycles
      \<lparr>throttled_rpcs = [7], max_nic_queue_cycles = 1000, link_idle_time = 5000\<rparr>) < 2 ^ 64 \<and>
   snd (check_pacer (\<lambda>h s. h\<lparr>throttled_rpcs := []\<rparr>) 4500
      \<lparr>throttled_rpcs = [7], max_nic_queue_cycles = 1000, link_idle_time = 5000\<rparr> 0)
     = [Homa_pacer_xmit 0]"
proof -
  let ?h = "\<lparr>throttled_rpcs = [7], max_nic_queue_cycles = 1000, link_idle_time = 5000\<rparr>"
  have a: "0 \<le> sint (max_nic_queue_cycles ?h)" by simp
  have b: "uint (4500 :: 64 word) + sint (max_nic_queue_cycles ?h) < 2 ^ 64" by simp
  show ?thesis
    using a b check_pacer_no_wrap [OF a b, of "\<lambda>h s. h\<lparr>throttled_rpcs := []\<rparr>" 0] by simp
qed

section \<open>Byte order\<close>

lemma mask16: "(0xff :: 16 word) = mask 8" "(0xff00 :: 16 word) = push_bit 8 (mask 8)"
  by (simp_all add: mask_eq_exp_minus_1)

lemma mask32: "(0xff :: 32 word) = mask 8" "(0xff00 :: 32 word) = push_bit 8 (mask 8)"
  "(0xff0000 :: 32 word) = push_bit 16 (mask 8)" "(0xff000000 :: 32 word) = push_bit 24 (mask 8)"
  by (simp_all add: mask_eq_exp_minus_1)

lemma byte_swab16_0: "byte0 (swab16 w) = byte1 w"
  unfolding byte0_def byte1_def byte2_def byte3_def swab16_def mask16
  by (rule bit_word_eqI) (auto simp add: bit_simps)

lemma byte_swab16_1: "byte1 (swab16 w) = byte0 w"
  unfolding byte0_def byte1_def byte2_def byte3_def swab16_def mask16
  by (rule bit_word_eqI) (auto simp add: bit_simps)

lemma byte_swab32_0: "byte0 (swab32 w) = byte3 w"
  unfolding byte0_def byte1_def byte2_def byte3_def swab32_def mask32
  by (rule bit_word_eqI) (auto simp add: bit_simps)

lemma byte_swab32_1: "byte1 (swab32 w) = byte2 w"
  unfolding byte0_def byte1_def byte2_def byte3_def swab32_def mask32
  by (rule bit_word_eqI) (auto simp add: bit_simps)

lemma byte_swab32_2: "byte2 (swab32 w) = byte1 w"
  unfolding byte0_def byte1_def byte2_def byte3_def swab32_def mask32
  by (rule bit_word_eqI) (auto simp add: bit_simps)

lemma byte_swab32_3: "byte3 (swab32 w) = byte0 w"
  unfolding byte0_def byte1_def byte2_def byte3_def swab32_def mask32
  by (rule bit_word_eqI) (auto simp add: bit_simps)

lemma cat16_bytes: "cat16 (byte1 w) (byte0 w) = w"
  unfolding byte0_def byte1_def byte2_def byte3_def cat16_def
  by (rule bit_word_eqI) (auto simp add: bit_simps)

lemma byte_cat16_0: "byte0 (cat16 b1 b0) = b0"
  unfolding byte0_def byte1_def byte2_def byte3_def cat16_def
  by (rule bit_word_eqI) (auto simp add: bit_simps dest: bit_imp_le_length)

lemma byte_cat16_1: "byte1 (cat16 b1 b0) = b1"
  unfolding byte0_def byte1_def byte2_def byte3_def cat16_def
  by (rule bit_word_eqI) (auto simp add: bit_simps dest: bit_imp_le_length)

lemma cat32_bytes: "cat32 (byte3 w) (byte2 w) (byte1 w) (byte0 w) = w"
  unfolding byte0_def byte1_def byte2_def byte3_def cat32_def
proof (rule bit_word_eqI)
  fix n assume "n < LENGTH(32)"
  then have n: "n < 32" by simp
  consider "n < 8" | "8 \<le> n" "n < 16" | "16 \<le> n" "n < 24" | "24 \<le> n" "n < 32"
    using n by linarith
  then show "bit (push_bit 24 (ucast (ucast (drop_bit 24 w) :: 8 word)) OR
         push_bit 16 (ucast (ucast (drop_bit 16 w) :: 8 word)) OR
         push_bit 8 (ucast (ucast (drop_bit 8 w) :: 8 word)) OR
         ucast (ucast w :: 8 word) :: 32 word) n = bit w n"
    by cases (auto simp add: bit_simps)
qed

lemma byte_cat32_0: "byte0 (cat32 b3 b2 b1 b0) = b0"
  unfolding byte0_def byte1_def byte2_def byte3_def cat32_def
  by (rule bit_word_eqI) (auto simp add: bit_simps dest: bit_imp_le_length)

lemma byte_cat32_1: "byte1 (cat32 b3 b2 b1 b0) = b1"
  unfolding byte0_def byte1_def byte2_def byte3_def cat32_def
  by (rule bit_word_eqI) (auto simp add: bit_simps dest: bit_imp_le_length)

lemma byte_cat32_2: "byte2 (cat32 b3 b2 b1 b0) = b2"
  unfolding byte0_def byte1_def byte2_def byte3_def cat32_def
  by (rule bit_word_eqI) (auto simp add: bit_simps dest: bit_imp_le_length)

lemma byte_cat32_3: "byte3 (cat32 b3 b2 b1 b0) = b3"
  unfolding byte0_def byte1_def byte2_def byte3_def cat32_def
  by (rule bit_word_eqI) (auto simp add: bit_simps dest: bit_imp_le_length)

lemma half_cat64_0: "(ucast (cat64 hi lo) :: 32 word) = lo"
  unfolding cat64_def
  by (rule bit_word_eqI) (auto simp add: bit_simps dest: bit_imp_le_length)

lemma half_cat64_1: "(ucast (drop_bit 32 (cat64 hi lo)) :: 32 word) = hi"
  unfolding cat64_def
  by (rule bit_word_eqI) (auto simp add: bit_simps dest: bit_imp_le_length)

lemma cat64_halves: "cat64 (ucast (drop_bit 32 w)) (ucast w) = w"
  unfolding cat64_def
  by (rule bit_word_eqI) (auto simp add: bit_simps)

lemma swab16_cat16: "swab16 (cat16 b1 b0) = cat16 b0 b1"
proof -
  have "swab16 (cat16 b1 b0) =
      cat16 (byte1 (swab16 (cat16 b1 b0))) (byte0 (swab16 (cat16 b1 b0)))"
    by (simp only: cat16_bytes)
  then show ?thesis
    by (simp only: byte_swab16_0 byte_swab16_1 byte_cat16_0 byte_cat16_1)
qed

lemma swab32_cat32: "swab32 (cat32 b3 b2 b1 b0) = cat32 b0 b1 b2 b3"
proof -
  let ?x = "cat32 b3 b2 b1 b0"
  have "swab32 ?x = cat32 (byte3 (swab32 ?x)) (byte2 (swab32 ?x))
      (byte1 (swab32 ?x)) (byte0 (swab32 ?x))"
    by (simp only: cat32_bytes)
  then show ?thesis
    by (simp only: byte_swab32_0 byte_swab32_1 byte_swab32_2 byte_swab32_3
        byte_cat32_0 byte_cat32_1 byte_cat32_2 byte_cat32_3)
qed

lemma store16_htons: "store16 e (htons e w) = be16 w"
  by (cases e) (simp_all add: store16_def htons_def be16_def byte_swab16_0 byte_swab16_1)

lemma store32_htonl: "store32 e (htonl e w) = be32 w"
  by (cases e) (simp_all add: store32_def htonl_def be32_def
      byte_swab32_0 byte_swab32_1 byte_swab32_2 byte_swab32_3)

lemma from_be16_be16: "from_be16 (be16 w) = w"
  by (simp add: be16_def cat16_bytes)

lemma from_be32_be32: "from_be32 (be32 w) = w"
  by (simp add: be32_def cat32_bytes)

lemma from_be64_be64: "from_be64 (be64 w) = w"
proof -
  have "take 4 (be64 w) = be32 (ucast (drop_bit 32 w))" "drop 4 (be64 w) = be32 (ucast w)"
    by (simp_all add: be64_def be32_def)
  then show ?thesis
    by (simp only: from_be64_def from_be32_be32 cat64_halves)
qed

lemma ntohs_load16: "ntohs e (load16 e [b1, b0]) = cat16 b1 b0"
  by (cases e) (simp_all add: ntohs_def load16_def swab16_cat16)

lemma ntohl_load32: "ntohl e (load32 e [b3, b2, b1, b0]) = cat32 b3 b2 b1 b0"
  by (cases e) (simp_all add: ntohl_def load32_def swab32_cat32)

lemma ntohs_load16_htons: "ntohs e (load16 e (store16 e (htons e w))) = w"
  by (simp add: store16_htons) (simp add: be16_def ntohs_load16 cat16_bytes)

lemma ntohl_load32_htonl: "ntohl e (load32 e (store32 e (htonl e w))) = w"
  by (simp add: store32_htonl) (simp add: be32_def ntohl_load32 cat32_bytes)

lemma load64_store64: "load64 e (store64 e w) = w"
  by (cases e) (simp_all add: load64_def store64_def from_be64_be64)

lemma be32_from_be32: "length bs = 4 \<Longrightarrow> be32 (from_be32 bs) = bs"
proof -
  assume "length bs = 4"
  then obtain b3 b2 b1 b0 where "bs = [b3, b2, b1, b0]"
    by (auto simp: length_Suc_conv numeral_eq_Suc)
  then show ?thesis
    by (simp add: be32_def byte_cat32_0 byte_cat32_1 byte_cat32_2 byte_cat32_3)
qed

lemma be64_from_be64: "length bs = 8 \<Longrightarrow> be64 (from_be64 bs) = bs"
  by (simp add: be64_def from_be64_def half_cat64_0 half_cat64_1 be32_from_be32)

lemma store64_load64: "length bs = 8 \<Longrightarrow> store64 e (load64 e bs) = bs"
  by (cases e) (simp_all add: load64_def store64_def be64_from_be64)


text \<open>
  X4. homa_data_offset returns the four bytes of seg.offset read as a big-endian integer
  (the first byte on the wire is the most significant), whatever the byte order of the
  host.
\<close>

theorem homa_data_offset_big_endian:
  "homa_data_offset e (h\<lparr>seg := (seg h)\<lparr>offset := load32 e [b3, b2, b1, b0]\<rparr>\<rparr>) =
     cat32 b3 b2 b1 b0"
  by (simp add: homa_data_offset_def ntohl_load32)

section \<open>Packet codec\<close>

lemma length_be: "length (be16 w) = 2" "length (be32 x) = 4" "length (be64 y) = 8"
  by (simp_all add: be16_def be32_def be64_def)

lemma length_store: "length (store16 e w) = 2" "length (store32 e x) = 4" "length (store64 e y) = 8"
  by (cases e; simp add: store16_def store32_def store64_def length_be)+

lemma length_put_member: "length (put_member e v) = sizeof_ktype (kind_of v)"
  by (cases v) (simp_all add: length_store)

lemma get_put_member: "get_member e (kind_of v) (put_member e v) = Some v"
  by (cases v) (simp_all add: length_store ntohs_load16_htons ntohl_load32_htonl load64_store64)

lemma decode_encode: "decode e (map kind_of vs) (encode e vs @ payload) = Some vs"
proof (induction vs)
  case Nil
  then show ?case by simp
next
  case (Cons v vs)
  have "encode e (v # vs) @ payload = put_member e v @ (encode e vs @ payload)"
    by (simp add: encode_def)
  with Cons show ?case
    by (simp add: length_put_member get_put_member encode_def)
qed

lemma encode_append: "encode e (xs @ ys) = encode e xs @ encode e ys"
  by (simp add: encode_def)

lemma encode_common:
  "encode e (common_members h) =
     be16 (sport h) @ be16 (dport h) @ be32 (unused1 h) @ be32 (unused2 h) @
     [doff h, type' h] @ be16 (unused3 h) @ be16 (checksum h) @ be16 (unused4 h) @
     store64 e (id' h)"
  by (simp add: encode_def common_members_def store16_htons store32_htonl)

lemma encode_map_be32: "encode e (map Val_be32 ws) = concat (map be32 ws)"
  by (induction ws) (simp_all add: encode_def store32_htonl)

lemma encode_data:
  "encode e (data_members d) =
     encode e (common_members (common d)) @ be32 (message_length d) @ be32 (incoming d) @
     be16 (cutoff_version d) @ [retransmit d, pad d] @
     be32 (offset (seg d)) @ be32 (segment_length (seg d))"
  by (simp add: data_members_def encode_append) (simp add: encode_def store16_htons store32_htonl)

lemma encode_cutoffs:
  "encode e (cutoffs_members c) =
     encode e (common_members (cutoffs_common c)) @ concat (map be32 (unsched_cutoffs c)) @
     be16 (cutoffs_version c)"
  by (simp add: cutoffs_members_def encode_append encode_map_be32)
    (simp add: encode_def store16_htons)

lemma echo: "put_member e' (Val_id (load64 e' (put_member e (Val_id i)))) = put_member e (Val_id i)"
  by (simp add: store64_load64 length_store)

lemma encode_grant:
  "encode e (grant_members g) =
     encode e (common_members (grant_common g)) @ be32 (grant_offset g) @ [grant_priority g]"
  by (simp add: grant_members_def encode_append) (simp add: encode_def store32_htonl)

lemma encode_resend:
  "encode e (resend_members r) =
     encode e (common_members (resend_common r)) @ be32 (resend_offset r) @
     be32 (resend_length r) @ [resend_priority r]"
  by (simp add: resend_members_def encode_append) (simp add: encode_def store32_htonl)

lemma length_encode_common: "length (encode e (common_members h)) = sizeof common_header"
  by (simp add: encode_common length_be length_store sizeof_common_header)

lemma length_encode_headers:
  "length (encode e (data_members d)) = sizeof data_header"
  "length (encode e (grant_members g)) = sizeof grant_header"
  "length (encode e (resend_members r)) = sizeof resend_header"
  by (simp_all add: encode_data encode_grant encode_resend length_encode_common length_be
      sizeof_common_header sizeof_data_header sizeof_grant_header sizeof_resend_header)

lemma seg_bytes: "member_bytes data_header ''seg'' bs = take 8 (drop 40 bs)"
  by (simp add: member_bytes_def data_header_def scalar_def nested_def
      sizeof_common_header sizeof_data_segment)

lemma offset_bytes: "member_bytes data_segment ''offset'' bs = take 4 bs"
  by (simp add: member_bytes_def data_segment_def scalar_def array_def)

lemma seg_offset_bytes:
  "member_bytes data_segment ''offset'' (member_bytes data_header ''seg'' bs) =
     take 4 (drop 40 bs)"
  by (simp add: seg_bytes offset_bytes)

lemma length_encode_data: "length (encode e (data_members d)) = 48"
  by (simp add: length_encode_headers sizeof_data_header)

lemma seg_offset_of_encode_data:
  "take 4 (drop 40 (encode e (data_members d) @ payload)) = be32 (offset (seg d))"
proof -
  have c: "length (encode e (common_members (common d))) = 28"
    by (simp add: length_encode_common sizeof_common_header)
  show ?thesis
    by (simp add: encode_data c length_be)
qed

lemma homa_data_offset_at:
  "map_option (homa_data_offset e) (data_header_at e (encode e' (data_members d) @ payload))
     = Some (offset (seg d))"
proof -
  let ?bs = "encode e' (data_members d) @ payload"
  have n: "\<not> length ?bs < sizeof data_header"
    by (simp add: length_encode_data sizeof_data_header)
  have "offset (data_segment_at e (member_bytes data_header ''seg'' ?bs)) =
      load32 e (be32 (offset (seg d)))"
    by (simp only: data_segment_at_def seg_offset_bytes seg_offset_of_encode_data) simp
  moreover have "ntohl e (load32 e (be32 (offset (seg d)))) = offset (seg d)"
    by (simp add: be32_def ntohl_load32 cat32_bytes)
  ultimately show ?thesis
    using n by (simp add: data_header_at_def homa_data_offset_def del: length_append)
qed

lemma get_member_is_data_offset:
  "get_member e BE32 [b3, b2, b1, b0] =
     Some (Val_be32 (homa_data_offset e (h\<lparr>seg := (seg h)\<lparr>offset := load32 e [b3, b2, b1, b0]\<rparr>\<rparr>)))"
  by (simp add: homa_data_offset_def)

text \<open>
  C7. On a host of either byte order, every member declared \<^verbatim>\<open>__be16\<close> or \<^verbatim>\<open>__be32\<close>
  (sport, dport, message_length, incoming, cutoff_version, the segment's offset and
  length, the offsets and length of GRANT and RESEND, the entries of unsched_cutoffs)
  is big-endian on the wire, in the header of each packet type (RESTART, BUSY and FREEZE
  carry the common header alone), and the headers have the sizes of their structs. The
  id is the exception: its eight bytes are the sender's memory image, most significant
  byte first on a big-endian client and last on a little-endian one. Parsing a header
  on a host of the sender's byte order gives back every member, the id included; and a
  server of any byte order that reads the id and writes it into a header of its own
  sends the eight bytes it received. homa_data_offset, the accessor whose body
  homa_impl.h holds, agrees: laid over the DATA header that a sender of either byte
  order put on the wire, it returns the sender's offset on a host of either byte order,
  and it is the conversion by which every \<^verbatim>\<open>__be32\<close> member is read.
\<close>

theorem wire_byte_order:
  "put_member e (Val_be16 w) = be16 w \<and>
   put_member e (Val_be32 x) = be32 x \<and>
   put_member Big_endian (Val_id i) = be64 i \<and>
   put_member Little_endian (Val_id i) = rev (be64 i) \<and>
   encode e (common_members h) =
     be16 (sport h) @ be16 (dport h) @ be32 (unused1 h) @ be32 (unused2 h) @
     [doff h, type' h] @ be16 (unused3 h) @ be16 (checksum h) @ be16 (unused4 h) @
     store64 e (id' h) \<and>
   encode e (data_members d) =
     encode e (common_members (common d)) @ be32 (message_length d) @ be32 (incoming d) @
     be16 (cutoff_version d) @ [retransmit d, pad d] @
     be32 (offset (seg d)) @ be32 (segment_length (seg d)) \<and>
   encode e (grant_members g) =
     encode e (common_members (grant_common g)) @ be32 (grant_offset g) @ [grant_priority g] \<and>
   encode e (resend_members r) =
     encode e (common_members (resend_common r)) @ be32 (resend_offset r) @
     be32 (resend_length r) @ [resend_priority r] \<and>
   encode e (cutoffs_members c) =
     encode e (common_members (cutoffs_common c)) @ concat (map be32 (unsched_cutoffs c)) @
     be16 (cutoffs_version c) \<and>
   length (encode e (common_members h)) = sizeof common_header \<and>
   length (encode e (data_members d)) = sizeof data_header \<and>
   length (encode e (grant_members g)) = sizeof grant_header \<and>
   length (encode e (resend_members r)) = sizeof resend_header \<and>
   decode e (map kind_of vs) (encode e vs @ payload) = Some vs \<and>
   put_member e' (Val_id (load64 e' (put_member e (Val_id i)))) = put_member e (Val_id i) \<and>
   map_option (homa_data_offset e) (data_header_at e (encode e' (data_members d) @ payload))
     = Some (offset (seg d)) \<and>
   get_member e BE32 [b3, b2, b1, b0] =
     Some (Val_be32
       (homa_data_offset e (d\<lparr>seg := (seg d)\<lparr>offset := load32 e [b3, b2, b1, b0]\<rparr>\<rparr>)))"
proof -
  have "put_member e (Val_be16 w) = be16 w" "put_member e (Val_be32 x) = be32 x"
    by (simp_all add: store16_htons store32_htonl)
  moreover have "put_member Big_endian (Val_id i) = be64 i"
    "put_member Little_endian (Val_id i) = rev (be64 i)"
    by (simp_all add: store64_def)
  moreover note encode_common [of e h] encode_data [of e d] encode_grant [of e g]
    encode_resend [of e r] encode_cutoffs [of e c] length_encode_common [of e h]
    length_encode_headers(1) [of e d] length_encode_headers(2) [of e g]
    length_encode_headers(3) [of e r] decode_encode [of e vs payload] echo [of e' e i]
    homa_data_offset_at [of e e' d payload] get_member_is_data_offset [of e b3 b2 b1 b0 d]
  ultimately show ?thesis by (simp only: simp_thms)
qed

end
